theory Spec2Isabelle
  imports Main
begin

section \<open>Exceptions and JSON values\<close>

text \<open>
  The harness in \<^verbatim>\<open>tests/helpers/load_state_tests.py\<close> signals every failure with a
  Python exception. An exception is a value of \<open>exc\<close>; a computation that may raise
  returns \<open>exc + 'a\<close>, with \<open>Inl\<close> for the exception. \<open>NoTestsFound\<close> and
  \<open>NoPostState\<close> are the two classes the module declares; \<open>InvalidBlock\<close> and
  \<open>RLPDecodingError\<close> are the classes the Shanghai scenario imports; \<open>Failed\<close> and
  \<open>XFailed\<close> are what \<^verbatim>\<open>pytest.raises\<close> and \<^verbatim>\<open>pytest.xfail\<close> raise; the others are
  the built-in exceptions the module's own statements raise.
\<close>

datatype exc =
    NoTestsFound
  | NoPostState
  | AssertionError
  | KeyError string
  | IndexError
  | TypeError
  | AttributeError
  | FileNotFoundError
  | JSONDecodeError
  | ReError
  | InvalidBlock
  | RLPDecodingError
  | Failed
  | XFailed
  | OtherError string

text \<open>
  What \<^verbatim>\<open>json.load\<close> returns. A JSON object becomes a Python dict, which keeps its
  items in order: an association list whose keys are distinct. Numbers play no role in
  the harness (fixtures carry quantities as hexadecimal strings), so a number is an
  integer here.
\<close>

datatype json =
    JNull
  | JBool bool
  | JNum int
  | JStr string
  | JArr "json list"
  | JObj "(string \<times> json) list"

text \<open>
  Python's \<^verbatim>\<open>p in s\<close> on two strings, and the containment test of a list of calls in
  a mock's call list: \<open>p\<close> occurs in \<open>s\<close> as a contiguous run.
\<close>

fun starts_with :: "'a list \<Rightarrow> 'a list \<Rightarrow> bool" where
  "starts_with [] s = True"
| "starts_with (a # p) [] = False"
| "starts_with (a # p) (b # s) = (a = b \<and> starts_with p s)"

fun occurs_in :: "'a list \<Rightarrow> 'a list \<Rightarrow> bool" where
  "occurs_in p [] = (p = [])"
| "occurs_in p (b # s) = (starts_with p (b # s) \<or> occurs_in p s)"

text \<open>\<^verbatim>\<open>obj[key]\<close> for a string key: only a dict can be subscripted by a string.\<close>

fun getitem :: "json \<Rightarrow> string \<Rightarrow> exc + json" where
  "getitem (JObj items) key =
     (case map_of items key of None \<Rightarrow> Inl (KeyError key) | Some v \<Rightarrow> Inr v)"
| "getitem _ key = Inl TypeError"

section \<open>The file system\<close>

text \<open>
  A path holds no file, a file that is not JSON, or a JSON document. \<open>walk_json\<close> is
  the list the comprehension over \<^verbatim>\<open>os.walk\<close> and \<^verbatim>\<open>glob\<close> builds for a directory: the
  paths of its \<^verbatim>\<open>*.json\<close> files, in traversal order.
\<close>

datatype file_content = NoFile | NotJson | Json json

record filesystem =
  contents :: "string \<Rightarrow> file_content"
  walk_json :: "string \<Rightarrow> string list"

text \<open>\<^verbatim>\<open>with open(test_file, "r") as fp: data = json.load(fp)\<close>\<close>

definition read_json :: "filesystem \<Rightarrow> string \<Rightarrow> exc + json" where
  "read_json fs test_file =
     (case contents fs test_file of
        NoFile \<Rightarrow> Inl FileNotFoundError
      | NotJson \<Rightarrow> Inl JSONDecodeError
      | Json data \<Rightarrow> Inr data)"

text \<open>\<^verbatim>\<open>os.path.join(a, b)\<close> on POSIX paths.\<close>

definition path_join :: "string \<Rightarrow> string \<Rightarrow> string" where
  "path_join a b =
     (if starts_with ''/'' b then b
      else if a = [] \<or> last a = CHR ''/'' then a @ b
      else a @ ''/'' @ b)"

section \<open>Discovery: \<^verbatim>\<open>load_json_fixture\<close> and \<^verbatim>\<open>fetch_state_test_files\<close>\<close>

text \<open>
  A test case reference is the dict \<^verbatim>\<open>{"test_file": ..., "test_key": ...}\<close>. The
  generator yields it bare, or wrapped by \<^verbatim>\<open>pytest.param\<close> with one mark.
\<close>

record test_case =
  test_file :: string
  test_key :: string

datatype mark = slow | bigmem

datatype param = Plain test_case | Marked test_case mark

text \<open>
  Both functions are generators. A run of a generator is the list of what it did, in
  order (a directory walked, a file opened, a value yielded), and how it ended:
  \<open>None\<close> when it was exhausted, \<open>Some e\<close> when \<open>e\<close> was raised.
\<close>

datatype 'y event = Walked string | Opened string | Yielded 'y

type_synonym 'y run = "'y event list \<times> exc option"

text \<open>
  One iteration of the search loop of \<^verbatim>\<open>load_json_fixture\<close>: does the key join
  \<^verbatim>\<open>found_keys\<close>? \<^verbatim>\<open>"network" not in test\<close> is key membership on a dict, substring
  search on a string, element membership on a list, and a \<^verbatim>\<open>TypeError\<close> on anything
  else; \<^verbatim>\<open>test["network"]\<close> then fails on a string or a list.
\<close>

fun network_matches :: "string \<Rightarrow> json \<Rightarrow> exc + bool" where
  "network_matches network (JObj flds) =
     (case map_of flds ''network'' of
        None \<Rightarrow> Inr False
      | Some v \<Rightarrow> Inr (v = JStr network))"
| "network_matches network (JStr s) =
     (if occurs_in ''network'' s then Inl TypeError else Inr False)"
| "network_matches network (JArr xs) =
     (if JStr ''network'' \<in> set xs then Inl TypeError else Inr False)"
| "network_matches network _ = Inl TypeError"

fun find_keys :: "string \<Rightarrow> (string \<times> json) list \<Rightarrow> exc + string list" where
  "find_keys network [] = Inr []"
| "find_keys network ((key, test) # rest) =
     (case network_matches network test of
        Inl e \<Rightarrow> Inl e
      | Inr m \<Rightarrow>
          (case find_keys network rest of
             Inl e \<Rightarrow> Inl e
           | Inr found \<Rightarrow> Inr (if m then key # found else found)))"

text \<open>
  \<^verbatim>\<open>any(found_keys)\<close> tests the truth value of each key, and a string is true when it
  is not empty.
\<close>

definition any_truthy :: "string list \<Rightarrow> bool" where
  "any_truthy keys = list_ex (\<lambda>k. k \<noteq> []) keys"

definition load_json_fixture :: "filesystem \<Rightarrow> string \<Rightarrow> string \<Rightarrow> test_case run" where
  "load_json_fixture fs tfile network =
     (case read_json fs tfile of
        Inl e \<Rightarrow> ([Opened tfile], Some e)
      | Inr data \<Rightarrow>
          (case data of
             JObj items \<Rightarrow>
               (case find_keys network items of
                  Inl e \<Rightarrow> ([Opened tfile], Some e)
                | Inr found_keys \<Rightarrow>
                    if \<not> any_truthy found_keys then ([Opened tfile], Some NoTestsFound)
                    else (Opened tfile #
                            map (\<lambda>k. Yielded \<lparr>test_file = tfile, test_key = k\<rparr>) found_keys,
                          None))
           | _ \<Rightarrow> ([Opened tfile], Some AttributeError)))"

text \<open>
  A compiled pattern is its \<^verbatim>\<open>search\<close> method. The regular-expression engine is
  Python's; it is a parameter \<open>re_compile\<close>, which returns \<open>None\<close> where
  \<^verbatim>\<open>re.compile\<close> raises \<^verbatim>\<open>re.error\<close>.
\<close>

type_synonym pattern = "string \<Rightarrow> bool"

fun compile_all :: "(string \<Rightarrow> pattern option) \<Rightarrow> string list \<Rightarrow> exc + pattern list" where
  "compile_all re_compile [] = Inr []"
| "compile_all re_compile (x # xs) =
     (case re_compile x of
        None \<Rightarrow> Inl ReError
      | Some p \<Rightarrow>
          (case compile_all re_compile xs of
             Inl e \<Rightarrow> Inl e
           | Inr ps \<Rightarrow> Inr (p # ps)))"

text \<open>\<^verbatim>\<open>any(x.search(s) for x in patterns)\<close>\<close>

definition any_search :: "pattern list \<Rightarrow> string \<Rightarrow> bool" where
  "any_search patterns s = list_ex (\<lambda>x. x s) patterns"

definition test_identifier :: "test_case \<Rightarrow> string" where
  "test_identifier tc = ''('' @ test_file tc @ ''|'' @ test_key tc @ '')''"

text \<open>The body of the inner loop: what one test case of a file becomes.\<close>

definition classify ::
  "pattern list \<Rightarrow> pattern list \<Rightarrow> pattern list \<Rightarrow> test_case \<Rightarrow> param event list" where
  "classify all_slow all_big_memory all_ignore tc =
     (if any_search all_ignore (test_identifier tc) then []
      else if any_search all_slow (test_identifier tc) then [Yielded (Marked tc slow)]
      else if any_search all_big_memory (test_identifier tc) then [Yielded (Marked tc bigmem)]
      else [Yielded (Plain tc)])"

fun relay ::
  "pattern list \<Rightarrow> pattern list \<Rightarrow> pattern list \<Rightarrow> test_case event \<Rightarrow> param event list" where
  "relay sl bm ig (Yielded tc) = classify sl bm ig tc"
| "relay sl bm ig (Opened f) = [Opened f]"
| "relay sl bm ig (Walked d) = [Walked d]"

text \<open>
  The outer loop over \<^verbatim>\<open>files_to_iterate\<close>: \<^verbatim>\<open>NoTestsFound\<close> is caught and the loop goes
  on with the next file; any other exception ends the generator.
\<close>

fun iterate_files ::
  "filesystem \<Rightarrow> string \<Rightarrow> pattern list \<Rightarrow> pattern list \<Rightarrow> pattern list \<Rightarrow>
   string list \<Rightarrow> param run" where
  "iterate_files fs network sl bm ig [] = ([], None)"
| "iterate_files fs network sl bm ig (f # files) =
     (case load_json_fixture fs f network of
        (evs, raised) \<Rightarrow>
          if raised = None \<or> raised = Some NoTestsFound then
            (case iterate_files fs network sl bm ig files of
               (evs', raised') \<Rightarrow> (concat (map (relay sl bm ig) evs) @ evs', raised'))
          else (concat (map (relay sl bm ig) evs), raised))"

definition fetch_state_test_files ::
  "(string \<Rightarrow> pattern option) \<Rightarrow> filesystem \<Rightarrow> string \<Rightarrow> string \<Rightarrow> string list \<Rightarrow>
   string list \<Rightarrow> string list \<Rightarrow> string list \<Rightarrow> param run" where
  "fetch_state_test_files re_compile fs test_dir network only_in slow_list
       big_memory_list ignore_list =
     (case compile_all re_compile slow_list of
        Inl e \<Rightarrow> ([], Some e)
      | Inr all_slow \<Rightarrow>
     (case compile_all re_compile big_memory_list of
        Inl e \<Rightarrow> ([], Some e)
      | Inr all_big_memory \<Rightarrow>
     (case compile_all re_compile ignore_list of
        Inl e \<Rightarrow> ([], Some e)
      | Inr all_ignore \<Rightarrow>
          if only_in \<noteq> [] then
            iterate_files fs network all_slow all_big_memory all_ignore
              (map (path_join test_dir) only_in)
          else
            (case iterate_files fs network all_slow all_big_memory all_ignore
                    (filter (\<lambda>full_path. \<not> any_search all_ignore full_path)
                       (walk_json fs test_dir)) of
               (evs, raised) \<Rightarrow> (Walked test_dir # evs, raised)))))"

text \<open>
  A test object takes no part in discovery when it is a JSON object without a
  \<^verbatim>\<open>network\<close> key.
\<close>

definition lacks_network :: "json \<Rightarrow> bool" where
  "lacks_network t = (case t of JObj flds \<Rightarrow> map_of flds ''network'' = None | _ \<Rightarrow> False)"

section \<open>Concrete inputs\<close>

text \<open>
  A regular-expression engine for concrete inputs: it agrees with Python's on the
  patterns used below, which are either free of metacharacters (then \<^verbatim>\<open>search\<close> is
  substring search) or the unterminated group \<^verbatim>\<open>(\<close>, which \<^verbatim>\<open>re.compile\<close> rejects.
  The directory \<^verbatim>\<open>d\<close> holds three fixture files.
\<close>

definition literal_compile :: "string \<Rightarrow> pattern option" where
  "literal_compile x = (if x = ''('' then None else Some (occurs_in x))"

definition demo_fs :: filesystem where
  "demo_fs =
     \<lparr>contents = (\<lambda>p.
        if p = ''d/a.json'' then
          Json (JObj [(''t1'', JObj [(''network'', JStr ''Shanghai'')]),
                      (''t2'', JObj [(''network'', JStr ''Berlin'')]),
                      (''t3'', JObj [(''pre'', JNull)])])
        else if p = ''d/b.json'' then
          Json (JObj [([], JObj [(''network'', JStr ''Shanghai'')])])
        else if p = ''d/c.json'' then
          Json (JObj [(''t4'', JObj [(''pre'', JNull)])])
        else NoFile),
      walk_json = (\<lambda>d. if d = ''d'' then [''d/a.json'', ''d/b.json'', ''d/c.json''] else [])\<rparr>"


section \<open>Discovery: theorems\<close>

lemma compile_all_Inl: "compile_all rc xs = Inl e \<Longrightarrow> e = ReError"
  by (induction xs arbitrary: e) (auto split: option.splits sum.splits)

lemma compile_all_invalid:
  "p \<in> set xs \<Longrightarrow> rc p = None \<Longrightarrow> compile_all rc xs = Inl ReError"
  by (induction xs) (auto split: option.splits sum.splits dest: compile_all_Inl)

text \<open>
  Claim C9. When one of the three pattern lists (slow, big-memory, ignore) holds a
  pattern that the regular-expression engine rejects, running the discoverer ends with
  the engine's error and an empty record of actions: no directory was walked, no fixture
  file was opened and no test case was yielded.
\<close>

theorem invalid_pattern_fails_before_any_file:
  assumes "p \<in> set slow_list \<union> set big_memory_list \<union> set ignore_list"
      and "re_compile p = None"
  shows "fetch_state_test_files re_compile fs test_dir network only_in slow_list
           big_memory_list ignore_list = ([], Some ReError)"
proof -
  consider "p \<in> set slow_list" | "p \<in> set big_memory_list" | "p \<in> set ignore_list"
    using assms(1) by blast
  then show ?thesis
  proof cases
    case 1
    then show ?thesis
      using compile_all_invalid [of p slow_list re_compile] 1 assms(2) by (simp add: fetch_state_test_files_def)
  next
    case 2
    then show ?thesis
      using compile_all_invalid [of p big_memory_list re_compile] 2 assms(2)
      by (auto simp add: fetch_state_test_files_def split: sum.splits dest: compile_all_Inl)
  next
    case 3
    then show ?thesis
      using compile_all_invalid [of p ignore_list re_compile] 3 assms(2)
      by (auto simp add: fetch_state_test_files_def split: sum.splits dest: compile_all_Inl)
  qed
qed

theorem invalid_pattern_fails_before_any_file_witness:
  "''('' \<in> set [] \<union> set [''t1'', ''(''] \<union> set []
   \<and> literal_compile ''('' = None
   \<and> fetch_state_test_files literal_compile demo_fs ''d'' ''Shanghai'' [] []
         [''t1'', ''(''] [] = ([], Some ReError)"
  using invalid_pattern_fails_before_any_file
          [of "''(''" "[]" "[''t1'', ''('']" "[]" literal_compile demo_fs "''d''" "''Shanghai''" "[]"]
  by (simp add: literal_compile_def)

lemma network_matches_lacks: "lacks_network t \<Longrightarrow> network_matches network t = Inr False"
  by (cases t) (auto simp: lacks_network_def)

lemma find_keys_drop_lacking:
  "find_keys network (filter (\<lambda>(k, t). \<not> lacks_network t) items) = find_keys network items"
  by (induction items) (auto simp: network_matches_lacks split: sum.splits)

lemma find_keys_not_found:
  "find_keys network items = Inr found \<Longrightarrow> \<forall>t. (k, t) \<in> set items \<longrightarrow> lacks_network t
    \<Longrightarrow> k \<notin> set found"
  by (induction items arbitrary: found)
     (auto simp: network_matches_lacks split: sum.splits if_splits)

lemma find_keys_all_lacking:
  "\<forall>(k, t) \<in> set items. lacks_network t \<Longrightarrow> find_keys network items = Inr []"
  by (induction items) (auto simp: network_matches_lacks split: sum.splits)

lemma load_json_fixture_obj:
  "contents fs f = Json (JObj items) \<Longrightarrow>
   load_json_fixture fs f network =
     (case find_keys network items of
        Inl e \<Rightarrow> ([Opened f], Some e)
      | Inr found_keys \<Rightarrow>
          if \<not> any_truthy found_keys then ([Opened f], Some NoTestsFound)
          else (Opened f # map (\<lambda>k. Yielded \<lparr>test_file = f, test_key = k\<rparr>) found_keys, None))"
  by (simp add: load_json_fixture_def read_json_def)

text \<open>
  Claim C10. In a fixture file that is a JSON object, (1) a key all of whose test
  objects lack the \<^verbatim>\<open>network\<close> field is never yielded, whatever network is requested;
  (2) deleting the test objects without that field from the file changes nothing in what
  \<^verbatim>\<open>load_json_fixture\<close> does, so they raise no error; (3) a file whose every test object
  lacks the field ends in \<^verbatim>\<open>NoTestsFound\<close> exactly as a file with no test at all does,
  and the discoverer goes on with the next file.
\<close>

theorem network_less_objects_do_not_participate:
  assumes "contents fs f = Json (JObj items)"
  shows "((\<forall>t. (k, t) \<in> set items \<longrightarrow> lacks_network t) \<longrightarrow>
            Yielded \<lparr>test_file = f, test_key = k\<rparr> \<notin> set (fst (load_json_fixture fs f network)))
       \<and> load_json_fixture
            (fs\<lparr>contents := (contents fs)
               (f := Json (JObj (filter (\<lambda>(k, t). \<not> lacks_network t) items)))\<rparr>) f network
          = load_json_fixture fs f network
       \<and> ((\<forall>(k, t) \<in> set items. lacks_network t) \<longrightarrow>
            load_json_fixture fs f network = ([Opened f], Some NoTestsFound)
          \<and> load_json_fixture (fs\<lparr>contents := (contents fs)(f := Json (JObj []))\<rparr>) f network
              = ([Opened f], Some NoTestsFound)
          \<and> iterate_files fs network sl bm ig (f # files)
              = (Opened f # fst (iterate_files fs network sl bm ig files),
                 snd (iterate_files fs network sl bm ig files)))"
proof (intro conjI impI)
  assume a: "\<forall>t. (k, t) \<in> set items \<longrightarrow> lacks_network t"
  show "Yielded \<lparr>test_file = f, test_key = k\<rparr> \<notin> set (fst (load_json_fixture fs f network))"
    using find_keys_not_found [OF _ a]
    by (auto simp: load_json_fixture_obj [OF assms] split: sum.splits)
next
  show "load_json_fixture
            (fs\<lparr>contents := (contents fs)
               (f := Json (JObj (filter (\<lambda>(k, t). \<not> lacks_network t) items)))\<rparr>) f network
          = load_json_fixture fs f network"
    by (simp add: load_json_fixture_obj [OF assms] load_json_fixture_obj find_keys_drop_lacking)
next
  assume a: "\<forall>(k, t) \<in> set items. lacks_network t"
  show l: "load_json_fixture fs f network = ([Opened f], Some NoTestsFound)"
    by (simp add: load_json_fixture_obj [OF assms] find_keys_all_lacking [OF a] any_truthy_def)
  show "load_json_fixture (fs\<lparr>contents := (contents fs)(f := Json (JObj []))\<rparr>) f network
              = ([Opened f], Some NoTestsFound)"
    by (simp add: load_json_fixture_obj any_truthy_def)
  show "iterate_files fs network sl bm ig (f # files)
              = (Opened f # fst (iterate_files fs network sl bm ig files),
                 snd (iterate_files fs network sl bm ig files))"
    by (simp add: l split: prod.splits)
qed


theorem network_less_objects_do_not_participate_witness:
  "contents demo_fs ''d/c.json'' = Json (JObj [(''t4'', JObj [(''pre'', JNull)])])
   \<and> lacks_network (JObj [(''pre'', JNull)])
   \<and> Yielded \<lparr>test_file = ''d/c.json'', test_key = ''t4''\<rparr>
        \<notin> set (fst (load_json_fixture demo_fs ''d/c.json'' ''Shanghai''))
   \<and> load_json_fixture demo_fs ''d/c.json'' ''Shanghai''
        = ([Opened ''d/c.json''], Some NoTestsFound)
   \<and> iterate_files demo_fs ''Shanghai'' [] [] [] [''d/c.json'', ''d/a.json'']
        = (Opened ''d/c.json'' # fst (iterate_files demo_fs ''Shanghai'' [] [] [] [''d/a.json'']),
           snd (iterate_files demo_fs ''Shanghai'' [] [] [] [''d/a.json'']))"
proof -
  have h: "contents demo_fs ''d/c.json'' = Json (JObj [(''t4'', JObj [(''pre'', JNull)])])"
    by (simp add: demo_fs_def)
  have l: "\<forall>t. (''t4'', t) \<in> set [(''t4'', JObj [(''pre'', JNull)])] \<longrightarrow> lacks_network t"
    by (simp add: lacks_network_def)
  have l': "\<forall>(k, t) \<in> set [(''t4'', JObj [(''pre'', JNull)])]. lacks_network t"
    by (simp add: lacks_network_def)
  have l'': "lacks_network (JObj [(''pre'', JNull)])"
    by (simp add: lacks_network_def)
  show ?thesis
    using h l l' l'' network_less_objects_do_not_participate
          [OF h, of "''t4''" "''Shanghai''" "[]" "[]" "[]" "[''d/a.json'']"]
    by blast
qed

text \<open>
  Claim C7, at the input where the code departs from it. The file \<^verbatim>\<open>d/b.json\<close> holds
  one test, named by the empty string, for network Shanghai. The search loop finds its
  key, but \<^verbatim>\<open>any(found_keys)\<close> tests the truth value of the keys instead of the length
  of the list, the empty string is false, and \<^verbatim>\<open>NoTestsFound\<close> is raised: the
  discoverer yields nothing for a test whose network is the requested one and which no
  ignore pattern matches.
\<close>

theorem empty_key_file_is_skipped:
  "find_keys ''Shanghai'' [([], JObj [(''network'', JStr ''Shanghai'')])] = Inr [[]]
   \<and> load_json_fixture demo_fs ''d/b.json'' ''Shanghai''
        = ([Opened ''d/b.json''], Some NoTestsFound)
   \<and> fetch_state_test_files literal_compile demo_fs ''d'' ''Shanghai'' [''b.json''] [] [] []
        = ([Opened ''d/b.json''], None)"
  by (simp add: demo_fs_def load_json_fixture_def read_json_def any_truthy_def
        fetch_state_test_files_def path_join_def)

end
